theory Spec2Isabelle
  imports Complex_Main "HOL-Library.Multiset" "HOL-Library.Product_Lexorder"
begin

section \<open>The page-order decision engine\<close>

text \<open>
  The engine is the Python back end (\<^verbatim>\<open>BE/services/ordering_svc.py\<close> and
  \<^verbatim>\<open>BE/services/strategies.py\<close>), which is not among the source files. Its data model
  and its orchestrator are written here from the specification, sections 3, 4.3, 4.4
  and 7. The orchestrator is defined over any table of strategies; the six strategies of
  section 4.3 are defined further down, with the signal read off a page as a parameter.
\<close>

subsection \<open>Data model\<close>

text \<open>Modelled from the spec: the enumeration of the field \<^verbatim>\<open>source\<close> of a page.\<close>

datatype source = Extracted | Ocr

text \<open>
  Modelled from the spec: \<^verbatim>\<open>PageContent\<close>, one per physical page. The derived field
  \<^verbatim>\<open>length\<close> is the function \<open>page_length\<close>.
\<close>

record PageContent =
  original_index :: nat
  page_text :: string
  source :: source

text \<open>Modelled from the spec: the derived field \<^verbatim>\<open>length\<close>, the character count of the text.\<close>

definition page_length :: "PageContent \<Rightarrow> nat" where
  "page_length p = length (page_text p)"

text \<open>
  Modelled from the spec: the strategy identifiers, in the order of the policy of
  section 4.4, and one more identifier for the terminal fallback, which belongs to no
  strategy.
\<close>

datatype strategy_id =
  PageNumber | BusinessLogic | StructuralPattern | DateSequence | SemanticSimilarity
  | LLMReasoning | IdentityFallback

text \<open>Modelled from the spec: \<^verbatim>\<open>OrderingResult\<close>, the output of one strategy or of the orchestrator.
  The field \<^verbatim>\<open>method\<close> is called \<open>used_method\<close> here.\<close>

record OrderingResult =
  order :: "int list"
  confidence :: real
  reasoning :: "string list"
  used_method :: strategy_id

text \<open>
  Modelled from the spec: the contract \<^verbatim>\<open>attempt(pages) -> OrderingResult | abstain\<close>;
  \<open>None\<close> is the abstention.
\<close>

type_synonym strategy = "PageContent list \<Rightarrow> OrderingResult option"

text \<open>
  Modelled from the spec: \<^verbatim>\<open>ProcessingResult\<close>, the output of the orchestrator. (The
  record of the same name further down is the TypeScript interface of the front end.)
\<close>

record EngineResult =
  selected :: OrderingResult
  candidates :: "(strategy_id \<times> real) list"
  initial_order :: "int list"
  final_order :: "int list"
  pairwise_confidences :: "real list"
  summaries :: "int \<rightharpoonup> string"

subsection \<open>Permutation check\<close>

text \<open>
  Modelled from the spec: the invariant of \<^verbatim>\<open>order\<close>, "exactly N entries, each original
  index exactly once", as the check that the orchestrator runs on a proposed order.
\<close>

definition is_permutation :: "nat \<Rightarrow> int list \<Rightarrow> bool" where
  "is_permutation n xs =
     (length xs = n \<and> list_all (\<lambda>i. count_list xs (int i) = 1) [0..<n])"

text \<open>
  Modelled from the spec: section 4.4 step 5 and section 7, "a strategy that violates this
  is treated as if it had abstained".
\<close>

definition admitted :: "nat \<Rightarrow> OrderingResult option \<Rightarrow> OrderingResult option" where
  "admitted n a =
     (case a of
        None \<Rightarrow> None
      | Some r \<Rightarrow> if is_permutation n (OrderingResult.order r) then Some r else None)"

subsection \<open>The LLM-Reasoning strategy\<close>

text \<open>
  Modelled from the spec: what the external reasoning service may deliver. A timeout and a
  malformed response are treated as an abstention (section 5).
\<close>

datatype llm_response = Timeout | Malformed | Answer "int list" real

text \<open>Modelled from the spec: "confidence reported by the service, clamped to [0,1]".\<close>

definition clamp01 :: "real \<Rightarrow> real" where
  "clamp01 c = max 0 (min 1 c)"

text \<open>Modelled from the spec: the reasoning entry of a result of the LLM-Reasoning strategy.\<close>

definition llm_note :: string where
  "llm_note = ''Order proposed by the reasoning service''"

text \<open>
  Modelled from the spec: the row LLM-Reasoning of the table of section 4.3, "accepts the
  service's proposed order verbatim after validating it is a permutation of [0,N);
  otherwise treated as abstain".
\<close>

definition llm_reasoning :: "(PageContent list \<Rightarrow> llm_response) \<Rightarrow> strategy" where
  "llm_reasoning service pages =
     (case service pages of
        Answer ord c \<Rightarrow>
          if is_permutation (length pages) ord
          then Some \<lparr>order = ord, confidence = clamp01 c, reasoning = [llm_note],
                     used_method = LLMReasoning\<rparr>
          else None
      | _ \<Rightarrow> None)"

subsection \<open>Orchestrator\<close>

text \<open>
  Modelled from the spec: what the orchestrator is run with. \<open>library\<close> is the table of
  the six strategies, \<open>cutoff\<close> the high-confidence cutoff of step 1, \<open>local_signal\<close>
  the per-transition confidence that step 6 derives for the Page-Number and Date-Sequence
  strategies, \<open>excerpt_of\<close> the short content excerpt of a page. The specification
  leaves all four open.
\<close>

record engine =
  library :: "strategy_id \<Rightarrow> strategy"
  cutoff :: real
  local_signal :: "PageContent list \<Rightarrow> strategy_id \<Rightarrow> int \<Rightarrow> int \<Rightarrow> real"
  excerpt_of :: "PageContent \<Rightarrow> string"

text \<open>Modelled from the spec: the priority order of section 4.4 step 1.\<close>

definition run_order :: "strategy_id list" where
  "run_order =
     [PageNumber, BusinessLogic, StructuralPattern, DateSequence, SemanticSimilarity,
      LLMReasoning]"

text \<open>
  Modelled from the spec: the fixed strategy-priority ranking of step 3; a smaller rank
  is a higher priority.
\<close>

fun priority_rank :: "strategy_id \<Rightarrow> nat" where
  "priority_rank PageNumber = 0"
| "priority_rank BusinessLogic = 1"
| "priority_rank StructuralPattern = 2"
| "priority_rank DateSequence = 3"
| "priority_rank SemanticSimilarity = 4"
| "priority_rank LLMReasoning = 5"
| "priority_rank IdentityFallback = 6"

text \<open>
  Modelled from the spec: steps 1 and 2. The strategies run in priority order; an
  abstention and an order that is not a permutation leave no result; the first result
  that clears the cutoff ends the run.
\<close>

fun run_strategies ::
  "real \<Rightarrow> (strategy_id \<Rightarrow> strategy) \<Rightarrow> PageContent list \<Rightarrow> strategy_id list
     \<Rightarrow> (strategy_id \<times> OrderingResult) list" where
  "run_strategies c lib pages [] = []"
| "run_strategies c lib pages (sid # rest) =
     (case admitted (length pages) (lib sid pages) of
        None \<Rightarrow> run_strategies c lib pages rest
      | Some r \<Rightarrow>
          if c \<le> OrderingResult.confidence r then [(sid, r)]
          else (sid, r) # run_strategies c lib pages rest)"

text \<open>
  Modelled from the spec: step 3, "pick the result with the highest confidence; ties
  broken by a fixed strategy-priority ranking".
\<close>

definition beats ::
  "strategy_id \<times> OrderingResult \<Rightarrow> strategy_id \<times> OrderingResult \<Rightarrow> bool" where
  "beats a b =
     (OrderingResult.confidence (snd b) < OrderingResult.confidence (snd a)
      \<or> (OrderingResult.confidence (snd a) = OrderingResult.confidence (snd b)
         \<and> priority_rank (fst a) < priority_rank (fst b)))"

text \<open>
  Modelled from the spec: step 3 over the collected results; \<open>None\<close> when there is no
  result, that is when every strategy abstained.
\<close>

fun select_best ::
  "(strategy_id \<times> OrderingResult) list \<Rightarrow> (strategy_id \<times> OrderingResult) option" where
  "select_best [] = None"
| "select_best (c # cs) =
     (case select_best cs of
        None \<Rightarrow> Some c
      | Some d \<Rightarrow> if beats d c then Some d else Some c)"

text \<open>
  Modelled from the spec: step 4, the terminal fallback, "identity order with confidence
  0.0 and a reasoning entry stating no strategy could decide".
\<close>

definition no_decision_note :: string where
  "no_decision_note = ''No strategy could decide the page order; the original order is kept''"

text \<open>Modelled from the spec: step 4, the result of the terminal fallback over \<open>n\<close> pages.\<close>

definition fallback_result :: "nat \<Rightarrow> OrderingResult" where
  "fallback_result n =
     \<lparr>order = map int [0..<n], confidence = 0, reasoning = [no_decision_note],
      used_method = IdentityFallback\<rparr>"

text \<open>
  Modelled from the spec: step 6. The confidence of the transition from page \<open>a\<close> to
  page \<open>b\<close> is the local signal for the Page-Number and Date-Sequence strategies and the
  aggregate confidence of the selected result for every other method; there is one entry
  for each pair of neighbours of the order.
\<close>

definition transition_confidence ::
  "engine \<Rightarrow> PageContent list \<Rightarrow> OrderingResult \<Rightarrow> int \<Rightarrow> int \<Rightarrow> real" where
  "transition_confidence e pages sel a b =
     (if used_method sel = PageNumber \<or> used_method sel = DateSequence
      then local_signal e pages (used_method sel) a b
      else OrderingResult.confidence sel)"

text \<open>
  Modelled from the spec: \<^verbatim>\<open>pairwise_confidences\<close>, "confidence of each adjacent
  transition in final_order".
\<close>

definition pairwise :: "engine \<Rightarrow> PageContent list \<Rightarrow> OrderingResult \<Rightarrow> real list" where
  "pairwise e pages sel =
     map (\<lambda>(a, b). transition_confidence e pages sel a b)
         (zip (OrderingResult.order sel) (tl (OrderingResult.order sel)))"

text \<open>
  Modelled from the spec: steps 3, 4 and 7, the assembly of the result. The candidates
  are sorted by descending confidence; the summaries are keyed by original index.
\<close>

definition orchestrate :: "engine \<Rightarrow> PageContent list \<Rightarrow> EngineResult" where
  "orchestrate e pages =
     (let n = length pages;
          cands = run_strategies (cutoff e) (library e) pages run_order;
          sel = (case select_best cands of
                   None \<Rightarrow> fallback_result n
                 | Some (sid, r) \<Rightarrow> r)
      in \<lparr>selected = sel,
          candidates =
            sort_key (\<lambda>(sid, c). - c)
              (map (\<lambda>(sid, r). (sid, OrderingResult.confidence r)) cands),
          initial_order = map int [0..<n],
          final_order = OrderingResult.order sel,
          pairwise_confidences = pairwise e pages sel,
          summaries =
            (\<lambda>i. if 0 \<le> i \<and> i < int n then Some (excerpt_of e (pages ! nat i)) else None)\<rparr>)"

subsection \<open>The strategy library\<close>

text \<open>
  Modelled from the spec: the three structural roles of the Structural-Pattern strategy,
  "detected cover page", "detected signature/closing pages" and the remaining pages.
\<close>

datatype page_role = Cover | Closing | Ordinary

text \<open>
  Modelled from the spec: what the strategies of section 4.3 are given. The extraction
  of a signal from the text of a page (number patterns, the classifier of section 4.2,
  role heuristics, embeddings, date parsing, the reasoning service) is outside the model
  and is a field here; \<open>similarity\<close> is \<open>None\<close> when the embeddings are unavailable.
  The thresholds of the abstentions, the penalty of the Page-Number strategy and the
  baseline of the Date-Sequence strategy are the configurable constants of section 9.
  A date is the number of its day.
\<close>

record strategy_config =
  detect_number :: "PageContent \<Rightarrow> nat option"
  classify :: "PageContent \<Rightarrow> (nat \<times> real) option"
  structural_role :: "PageContent \<Rightarrow> page_role"
  similarity :: "(PageContent \<Rightarrow> PageContent \<Rightarrow> real) option"
  earliest_date :: "PageContent \<Rightarrow> int option"
  reasoning_service :: "PageContent list \<Rightarrow> llm_response"
  min_number_coverage :: real
  number_penalty :: "nat option list \<Rightarrow> real"
  min_classified :: real
  min_structural :: real
  min_dated :: nat
  date_baseline :: real

text \<open>Modelled from the spec: a fraction of the pages, as in "pages with a detected number / N".\<close>

definition fraction :: "nat \<Rightarrow> nat \<Rightarrow> real" where
  "fraction k n = real k / real n"

text \<open>
  Modelled from the spec: an order is a sequence of \<^verbatim>\<open>original_index\<close>; the strategies
  arrange the positions of the arrival sequence and report the original index of the
  page at each position.
\<close>

definition page_ids :: "PageContent list \<Rightarrow> nat list \<Rightarrow> int list" where
  "page_ids pages ps = map (\<lambda>i. int (original_index (pages ! i))) ps"

text \<open>
  Modelled from the spec: "nearest-neighbor original-position proximity". For a page
  without a cue of its own, the cue of the page nearest in original position that has
  one; of two equally near pages the earlier one. \<open>None\<close> when no page has a cue.
\<close>

definition nearest_known :: "'a option list \<Rightarrow> nat \<Rightarrow> 'a option" where
  "nearest_known keys i =
     (case filter (\<lambda>j. keys ! j \<noteq> None) [0..<length keys] of
        [] \<Rightarrow> None
      | j # js \<Rightarrow> keys ! arg_min_list (\<lambda>k. nat \<bar>int i - int k\<bar>) (j # js))"

text \<open>
  Modelled from the spec: the sort key of a page in the Page-Number and Date-Sequence
  strategies, its own cue or else the cue of its nearest neighbour. The value \<open>0\<close> is
  taken only when no page has a cue, and then both strategies abstain.
\<close>

definition placement_key :: "'a::{linorder, zero} option list \<Rightarrow> nat \<Rightarrow> 'a" where
  "placement_key keys i =
     (case keys ! i of
        Some k \<Rightarrow> k
      | None \<Rightarrow> (case nearest_known keys i of Some k \<Rightarrow> k | None \<Rightarrow> 0))"

text \<open>
  Modelled from the spec: "sort by detected number" and "sort ascending by earliest
  date", with the pages without a cue interleaved next to their nearest neighbour. The
  sort is stable, so pages with equal keys keep their original order.
\<close>

definition order_by_cue :: "'a::{linorder, zero} option list \<Rightarrow> nat list" where
  "order_by_cue keys = sort_key (placement_key keys) [0..<length keys]"

definition page_number_note :: string where
  "page_number_note = ''Ordered by detected page numbers''"

text \<open>
  Modelled from the spec: the row Page-Number of the table of section 4.3. The strategy
  abstains when no page has a detected number or the coverage is below the minimum; the
  confidence is the coverage minus the penalty.
\<close>

definition page_number_strategy :: "strategy_config \<Rightarrow> strategy" where
  "page_number_strategy cfg pages =
     (let nums = map (detect_number cfg) pages;
          found = length (filter (\<lambda>k. k \<noteq> None) nums)
      in if found = 0 \<or> fraction found (length pages) < min_number_coverage cfg then None
         else Some \<lparr>order = page_ids pages (order_by_cue nums),
                    confidence = fraction found (length pages) - number_penalty cfg nums,
                    reasoning = [page_number_note],
                    used_method = PageNumber\<rparr>)"

text \<open>
  Modelled from the spec: the sort key \<^verbatim>\<open>(priority, -raw_score)\<close> of a classified page;
  pairs are compared lexicographically.
\<close>

definition section_key :: "(nat \<times> real) option \<Rightarrow> nat \<times> real" where
  "section_key c = (case c of Some (priority, raw_score) \<Rightarrow> (priority, - raw_score) | None \<Rightarrow> (0, 0))"

definition business_logic_note :: string where
  "business_logic_note = ''Ordered by the priority of the classified sections''"

text \<open>
  Modelled from the spec: the row Configurable Business-Logic of the table of section 4.3
  and step 4 of section 4.2. The classified pages are sorted by the key of their section,
  ties keeping the original order; the unclassified pages are appended in original order.
  The strategy abstains when no page is classified or the classified fraction is below
  the minimum; the confidence is the classified fraction.
\<close>

definition business_logic_strategy :: "strategy_config \<Rightarrow> strategy" where
  "business_logic_strategy cfg pages =
     (let cls = map (classify cfg) pages;
          classified = filter (\<lambda>i. cls ! i \<noteq> None) [0..<length pages];
          unclassified = filter (\<lambda>i. cls ! i = None) [0..<length pages]
      in if classified = [] \<or> fraction (length classified) (length pages) < min_classified cfg
         then None
         else Some \<lparr>order = page_ids pages
                              (sort_key (\<lambda>i. section_key (cls ! i)) classified @ unclassified),
                    confidence = fraction (length classified) (length pages),
                    reasoning = [business_logic_note],
                    used_method = BusinessLogic\<rparr>)"

definition structural_note :: string where
  "structural_note = ''Cover pages first, closing pages last''"

text \<open>
  Modelled from the spec: the row Structural-Pattern of the table of section 4.3. The
  cover pages come first, the closing pages last, the remaining pages keep their relative
  order in between. The strategy abstains when no page has a distinctive role or their
  proportion is below the minimum; the confidence is that proportion.
\<close>

definition structural_pattern_strategy :: "strategy_config \<Rightarrow> strategy" where
  "structural_pattern_strategy cfg pages =
     (let role = (\<lambda>i. structural_role cfg (pages ! i));
          covers = filter (\<lambda>i. role i = Cover) [0..<length pages];
          others = filter (\<lambda>i. role i = Ordinary) [0..<length pages];
          closings = filter (\<lambda>i. role i = Closing) [0..<length pages];
          distinctive = length covers + length closings
      in if distinctive = 0 \<or> fraction distinctive (length pages) < min_structural cfg
         then None
         else Some \<lparr>order = page_ids pages (covers @ others @ closings),
                    confidence = fraction distinctive (length pages),
                    reasoning = [structural_note],
                    used_method = StructuralPattern\<rparr>)"

text \<open>
  Modelled from the spec: the greedy chain of the Semantic-Similarity strategy,
  "repeatedly append the unplaced page most similar to the current chain tail". \<open>t\<close> is
  the tail, the list holds the unplaced pages.
\<close>

function chain :: "(nat \<Rightarrow> nat \<Rightarrow> real) \<Rightarrow> nat \<Rightarrow> nat list \<Rightarrow> nat list" where
  "chain sim t [] = []"
| "chain sim t (u # us) =
     (let nxt = arg_min_list (\<lambda>j. - sim t j) (u # us)
      in nxt # chain sim nxt (remove1 nxt (u # us)))"
  by pat_completeness auto
termination
proof (relation "measure (\<lambda>(sim, t, us). length us)")
  show "wf (measure (\<lambda>(sim, t, us). length us))" by simp
next
  fix sim :: "nat \<Rightarrow> nat \<Rightarrow> real" and t u :: nat and us :: "nat list" and nxt :: nat
  assume "nxt = arg_min_list (\<lambda>j. - sim t j) (u # us)"
  then have "nxt \<in> set (u # us)" by (simp only: arg_min_list_in list.distinct not_False_eq_True)
  then have "length (remove1 nxt (u # us)) < length (u # us)"
    by (simp only: length_remove1 if_True) simp
  then show "((sim, nxt, remove1 nxt (u # us)), sim, t, u # us)
      \<in> measure (\<lambda>(sim, t, us). length us)" by simp
qed

text \<open>
  Modelled from the spec: the start of the chain, "the page most dissimilar to all
  others", the page with the least total similarity to the other pages.
\<close>

definition opener :: "(nat \<Rightarrow> nat \<Rightarrow> real) \<Rightarrow> nat \<Rightarrow> nat" where
  "opener sim n =
     arg_min_list (\<lambda>i. sum_list (map (sim i) (remove1 i [0..<n]))) [0..<n]"

definition semantic_note :: string where
  "semantic_note = ''Greedy chain of the most similar pages''"

text \<open>
  Modelled from the spec: the row Semantic-Similarity of the table of section 4.3. The
  strategy abstains when the embeddings are unavailable, and when there are fewer than
  two pages and so no pair of neighbours; the confidence is the mean similarity of the
  consecutive pairs of the chain.
\<close>

definition semantic_similarity_strategy :: "strategy_config \<Rightarrow> strategy" where
  "semantic_similarity_strategy cfg pages =
     (case similarity cfg of
        None \<Rightarrow> None
      | Some f \<Rightarrow>
          if length pages < 2 then None
          else
            (let sim = (\<lambda>i j. f (pages ! i) (pages ! j));
                 start = opener sim (length pages);
                 ch = start # chain sim start (remove1 start [0..<length pages])
             in Some \<lparr>order = page_ids pages ch,
                       confidence =
                         sum_list (map (\<lambda>(a, b). sim a b) (zip ch (tl ch)))
                           / real (length pages - 1),
                       reasoning = [semantic_note],
                       used_method = SemanticSimilarity\<rparr>))"

definition date_note :: string where
  "date_note = ''Ordered by the earliest date of each page''"

text \<open>
  Modelled from the spec: the row Date-Sequence of the table of section 4.3. The strategy
  abstains when no page, or fewer pages than the minimum count, has a date; the
  confidence is the fixed baseline.
\<close>

definition date_sequence_strategy :: "strategy_config \<Rightarrow> strategy" where
  "date_sequence_strategy cfg pages =
     (let dates = map (earliest_date cfg) pages;
          dated = length (filter (\<lambda>d. d \<noteq> None) dates)
      in if dated = 0 \<or> dated < min_dated cfg then None
         else Some \<lparr>order = page_ids pages (order_by_cue dates),
                    confidence = date_baseline cfg,
                    reasoning = [date_note],
                    used_method = DateSequence\<rparr>)"

text \<open>
  Modelled from the spec: the table of the six strategies of section 4.3 over one
  configuration. The identifier of the terminal fallback names no strategy.
\<close>

fun strategy_library :: "strategy_config \<Rightarrow> strategy_id \<Rightarrow> strategy" where
  "strategy_library cfg PageNumber = page_number_strategy cfg"
| "strategy_library cfg BusinessLogic = business_logic_strategy cfg"
| "strategy_library cfg StructuralPattern = structural_pattern_strategy cfg"
| "strategy_library cfg DateSequence = date_sequence_strategy cfg"
| "strategy_library cfg SemanticSimilarity = semantic_similarity_strategy cfg"
| "strategy_library cfg LLMReasoning = llm_reasoning (reasoning_service cfg)"
| "strategy_library cfg IdentityFallback = (\<lambda>pages. None)"

subsection \<open>The permutation invariant\<close>

text \<open>
  Modelled from the spec: "a permutation of [0, N)", the property that the orders of the
  engine are to have: \<open>N\<close> entries, no entry twice, and the entries are the indices from
  \<open>0\<close> up to \<open>N - 1\<close>.
\<close>

definition index_permutation :: "nat \<Rightarrow> int list \<Rightarrow> bool" where
  "index_permutation n xs = (length xs = n \<and> distinct xs \<and> set xs = {0..<int n})"

subsection \<open>Example inputs\<close>

text \<open>
  A document of two pages and two engines over it, used as concrete inputs below: an
  engine in which Page-Number and Structural-Pattern propose the two possible orders with
  given confidences and the other strategies abstain; an engine in which every strategy
  abstains. Then the
  scenario of section 8: five pages that carry the numbers 3, 1, 5, 2, 4 in arrival order,
  and a configuration that reads the number off the text of a page.
\<close>

definition two_pages :: "PageContent list" where
  "two_pages =
     [\<lparr>original_index = 0, page_text = ''Signature'', source = Extracted\<rparr>,
      \<lparr>original_index = 1, page_text = ''ARTICLE - I'', source = Ocr\<rparr>]"

definition proposal :: "strategy_id \<Rightarrow> int list \<Rightarrow> real \<Rightarrow> OrderingResult" where
  "proposal sid ord c = \<lparr>order = ord, confidence = c, reasoning = [], used_method = sid\<rparr>"

definition two_result_engine :: "real \<Rightarrow> real \<Rightarrow> engine" where
  "two_result_engine c1 c2 =
     \<lparr>library = (\<lambda>sid pages.
         if sid = PageNumber then Some (proposal PageNumber [1, 0] c1)
         else if sid = StructuralPattern then Some (proposal StructuralPattern [0, 1] c2)
         else None),
      cutoff = 0.95,
      local_signal = (\<lambda>pages sid a b. 1),
      excerpt_of = (\<lambda>p. take 20 (page_text p))\<rparr>"

definition five_pages :: "PageContent list" where
  "five_pages =
     [\<lparr>original_index = 0, page_text = ''- 3 -'', source = Extracted\<rparr>,
      \<lparr>original_index = 1, page_text = ''- 1 -'', source = Extracted\<rparr>,
      \<lparr>original_index = 2, page_text = ''- 5 -'', source = Ocr\<rparr>,
      \<lparr>original_index = 3, page_text = ''- 2 -'', source = Extracted\<rparr>,
      \<lparr>original_index = 4, page_text = ''- 4 -'', source = Extracted\<rparr>]"

definition numbered_config :: strategy_config where
  "numbered_config =
     \<lparr>detect_number = (\<lambda>p. map_of [(''- 1 -'', 1), (''- 2 -'', 2), (''- 3 -'', 3),
                                     (''- 4 -'', 4), (''- 5 -'', 5)] (page_text p)),
      classify = (\<lambda>p. None),
      structural_role = (\<lambda>p. Ordinary),
      similarity = None,
      earliest_date = (\<lambda>p. None),
      reasoning_service = (\<lambda>pages. Timeout),
      min_number_coverage = 0.5,
      number_penalty = (\<lambda>nums. 0),
      min_classified = 0.5,
      min_structural = 0.2,
      min_dated = 2,
      date_baseline = 0.7\<rparr>"

definition silent_engine :: engine where
  "silent_engine =
     \<lparr>library = (\<lambda>sid pages. None),
      cutoff = 0.9,
      local_signal = (\<lambda>pages sid a b. 1),
      excerpt_of = (\<lambda>p. take 20 (page_text p))\<rparr>"

section \<open>The report component: \<^verbatim>\<open>FE/src/components/ProcessingLogs.tsx\<close>\<close>

subsection \<open>JavaScript numbers\<close>

text \<open>
  A value of the TypeScript type \<^verbatim>\<open>number\<close>. Finite values are kept as exact reals
  (rounding, overflow and the sign of zero are not modelled); \<^verbatim>\<open>NaN\<close> and the two
  infinities are values of their own, because the comparisons and the division of the
  component behave differently on them.
\<close>

datatype jsnum = Num real | PInf | NInf | NaN

text \<open>
  The operator \<^verbatim>\<open>a + b\<close> on numbers. The sum of two finite numbers is their exact
  sum: the rounding of the result, and its overflow to an infinity, are not modelled.
\<close>

fun js_add :: "jsnum \<Rightarrow> jsnum \<Rightarrow> jsnum" where
  "js_add NaN _ = NaN"
| "js_add _ NaN = NaN"
| "js_add PInf NInf = NaN"
| "js_add NInf PInf = NaN"
| "js_add PInf _ = PInf"
| "js_add _ PInf = PInf"
| "js_add NInf _ = NInf"
| "js_add _ NInf = NInf"
| "js_add (Num a) (Num b) = Num (a + b)"

text \<open>
  The operator \<^verbatim>\<open>x / xs.length\<close>: the divisor is the length of an array, a
  non-negative integer. Dividing zero by zero gives \<^verbatim>\<open>NaN\<close>, dividing another finite
  number by zero gives an infinity. A quotient by a positive length is the exact quotient,
  without rounding.
\<close>

fun js_div_length :: "jsnum \<Rightarrow> nat \<Rightarrow> jsnum" where
  "js_div_length NaN n = NaN"
| "js_div_length PInf n = PInf"
| "js_div_length NInf n = NInf"
| "js_div_length (Num a) n =
     (if n = 0 then (if a = 0 then NaN else if 0 < a then PInf else NInf)
      else Num (a / real n))"

text \<open>The comparisons \<^verbatim>\<open>a >= b\<close> and \<^verbatim>\<open>a < b\<close>: both are false when an operand is \<^verbatim>\<open>NaN\<close>.\<close>

fun js_ge :: "jsnum \<Rightarrow> jsnum \<Rightarrow> bool" where
  "js_ge NaN _ = False"
| "js_ge _ NaN = False"
| "js_ge PInf _ = True"
| "js_ge _ NInf = True"
| "js_ge NInf _ = False"
| "js_ge _ PInf = False"
| "js_ge (Num a) (Num b) = (b \<le> a)"

fun js_lt :: "jsnum \<Rightarrow> jsnum \<Rightarrow> bool" where
  "js_lt NaN _ = False"
| "js_lt _ NaN = False"
| "js_lt PInf _ = False"
| "js_lt _ NInf = False"
| "js_lt NInf _ = True"
| "js_lt _ PInf = True"
| "js_lt (Num a) (Num b) = (a < b)"

text \<open>Truthiness of a number: \<^verbatim>\<open>0\<close> and \<^verbatim>\<open>NaN\<close> are falsy.\<close>

fun js_truthy :: "jsnum \<Rightarrow> bool" where
  "js_truthy NaN = False"
| "js_truthy (Num a) = (a \<noteq> 0)"
| "js_truthy _ = True"

subsection \<open>Arrays and strings\<close>

text \<open>
  \<^verbatim>\<open>xs[i]\<close> on an array: the element, or \<^verbatim>\<open>undefined\<close> (here \<open>None\<close>) out of range.
  \<^verbatim>\<open>xs?.[i]\<close> is the same on an array that may itself be \<^verbatim>\<open>undefined\<close>.
\<close>

definition js_index :: "'a list \<Rightarrow> nat \<Rightarrow> 'a option" where
  "js_index xs i = (if i < length xs then Some (xs ! i) else None)"

definition js_opt_index :: "'a list option \<Rightarrow> nat \<Rightarrow> 'a option" where
  "js_opt_index oxs i = (case oxs of None \<Rightarrow> None | Some xs \<Rightarrow> js_index xs i)"

text \<open>
  \<^verbatim>\<open>s.substring(a, b)\<close>: the two bounds are swapped when \<^verbatim>\<open>a > b\<close> and both are
  cut off at the length of the string. A string is its list of code units.
\<close>

definition substring :: "nat \<Rightarrow> nat \<Rightarrow> string \<Rightarrow> string" where
  "substring a b s = drop (min a b) (take (max a b) s)"

text \<open>\<^verbatim>\<open>s.replace(/\n/g, ' ')\<close>: every line feed becomes a space.\<close>

definition replace_newlines :: "string \<Rightarrow> string" where
  "replace_newlines s = map (\<lambda>c. if c = CHR 0x0A then CHR '' '' else c) s"

subsection \<open>The props of the component\<close>

record Strategy =
  name :: string
  confidence :: jsnum
  details :: string

record SelectedStrategy =
  name :: string
  confidence :: jsnum

record PageMapping =
  original :: "int list"
  final :: "int list"

record Metadata =
  original_filename :: "string option"
  page_count :: "int option"
  initial_order :: "int list option"
  final_order :: "int list option"
  confidences :: "jsnum list option"
  summaries :: "(int \<rightharpoonup> string) option"

record ProcessingResult =
  strategies :: "Strategy list"
  selectedStrategy :: SelectedStrategy
  pageMapping :: PageMapping
  reasoning :: "string option"
  metadata :: "Metadata option"

subsection \<open>Average confidence (lines 89 to 92)\<close>

text \<open>
  \<^verbatim>\<open>metadata?.confidences ? confidences.reduce((a, b) => a + b, 0) / confidences.length
                         : result.selectedStrategy.confidence\<close>.
  An array is truthy also when it is empty, so the second branch is taken only when
  \<^verbatim>\<open>metadata\<close> or its field \<^verbatim>\<open>confidences\<close> is \<^verbatim>\<open>undefined\<close>.
\<close>

definition avgConfidence :: "ProcessingResult \<Rightarrow> jsnum" where
  "avgConfidence result =
     (case ProcessingResult.metadata result of
        None \<Rightarrow> SelectedStrategy.confidence (selectedStrategy result)
      | Some md \<Rightarrow>
          (case Metadata.confidences md of
             None \<Rightarrow> SelectedStrategy.confidence (selectedStrategy result)
           | Some cs \<Rightarrow> js_div_length (foldl js_add (Num 0) cs) (length cs)))"

subsection \<open>Confidence histogram (lines 191 to 210)\<close>

text \<open>The three counts, each a \<^verbatim>\<open>filter(...).length\<close> over the same array.\<close>

definition high_count :: "jsnum list \<Rightarrow> nat" where
  "high_count cs = length (filter (\<lambda>c. js_ge c (Num 0.8)) cs)"

definition medium_count :: "jsnum list \<Rightarrow> nat" where
  "medium_count cs = length (filter (\<lambda>c. js_ge c (Num 0.6) \<and> js_lt c (Num 0.8)) cs)"

definition low_count :: "jsnum list \<Rightarrow> nat" where
  "low_count cs = length (filter (\<lambda>c. js_lt c (Num 0.6)) cs)"

subsection \<open>Transition list (lines 212 to 229)\<close>

text \<open>
  One row for each of the first ten confidences. The left end is
  \<^verbatim>\<open>final_order?.[idx]\<close>, the right end is \<^verbatim>\<open>final_order?.[idx + 1] || 'End'\<close>:
  the label \<^verbatim>\<open>End\<close> replaces every falsy value, that is \<^verbatim>\<open>undefined\<close> and the
  number \<^verbatim>\<open>0\<close>.
\<close>

datatype endpoint = Page int | End

record transition_row =
  left :: "int option"
  right :: endpoint
  conf :: jsnum

definition or_End :: "int option \<Rightarrow> endpoint" where
  "or_End v = (case v of None \<Rightarrow> End | Some p \<Rightarrow> if p = 0 then End else Page p)"

definition transition_rows :: "Metadata \<Rightarrow> transition_row list" where
  "transition_rows md =
     (case Metadata.confidences md of
        None \<Rightarrow> []
      | Some cs \<Rightarrow>
          map (\<lambda>(idx, c).
                 \<lparr>left = js_opt_index (Metadata.final_order md) idx,
                  right = or_End (js_opt_index (Metadata.final_order md) (idx + 1)),
                  conf = c\<rparr>)
              (enumerate 0 (take 10 cs)))"

subsection \<open>Content preview (lines 253 to 272)\<close>

text \<open>
  One row for each of the first eight entries of \<^verbatim>\<open>final_order\<close>, shown only when
  \<^verbatim>\<open>summaries\<close> is present. \<^verbatim>\<open>pageIdx\<close> is the entry, \<^verbatim>\<open>position\<close> its place in
  the array. The badge is \<^verbatim>\<open>confidences?.[position]\<close> when that is truthy. The paragraph
  holds \<^verbatim>\<open>summaries[pageIdx]?.substring(0, 150).replace(/\n/g, ' ')\<close> followed by
  \<^verbatim>\<open>summaries[pageIdx]?.length > 150 ? '...' : ''\<close>; an \<^verbatim>\<open>undefined\<close> excerpt renders
  as nothing and compares false with \<^verbatim>\<open>150\<close>.
\<close>

record preview_row =
  position :: nat
  pageIdx :: int
  badge :: "jsnum option"
  excerpt :: "string option"
  ellipsis :: string

definition preview_badge :: "jsnum list option \<Rightarrow> nat \<Rightarrow> jsnum option" where
  "preview_badge ocs p =
     (case js_opt_index ocs p of
        None \<Rightarrow> None
      | Some c \<Rightarrow> if js_truthy c then Some c else None)"

definition preview_rows :: "Metadata \<Rightarrow> preview_row list" where
  "preview_rows md =
     (case Metadata.summaries md of
        None \<Rightarrow> []
      | Some sm \<Rightarrow>
          (case Metadata.final_order md of
             None \<Rightarrow> []
           | Some fo \<Rightarrow>
               map (\<lambda>(p, idx).
                      \<lparr>position = p,
                       pageIdx = idx,
                       badge = preview_badge (Metadata.confidences md) p,
                       excerpt = map_option (\<lambda>s. replace_newlines (substring 0 150 s)) (sm idx),
                       ellipsis = (case sm idx of
                                     None \<Rightarrow> []
                                   | Some s \<Rightarrow> if 150 < length s then ''...'' else [])\<rparr>)
                   (enumerate 0 (take 8 fo))))"

text \<open>The text of the paragraph of a row: the excerpt, if any, then the ellipsis.\<close>

definition shown_text :: "preview_row \<Rightarrow> string" where
  "shown_text r = (case excerpt r of None \<Rightarrow> [] | Some t \<Rightarrow> t) @ ellipsis r"

section \<open>The page viewer: \<^verbatim>\<open>FE/src/components/PDFViewer.tsx\<close>\<close>

text \<open>The two state variables, with their initial values \<^verbatim>\<open>useState(0)\<close> and \<^verbatim>\<open>useState(1)\<close>.\<close>

record viewer_state =
  numPages :: int
  pageNumber :: int

definition initial_viewer :: viewer_state where
  "initial_viewer = \<lparr>numPages = 0, pageNumber = 1\<rparr>"

definition onDocumentLoadSuccess :: "int \<Rightarrow> viewer_state \<Rightarrow> viewer_state" where
  "onDocumentLoadSuccess n s = s\<lparr>numPages := n, pageNumber := 1\<rparr>"

definition goToPrevPage :: "viewer_state \<Rightarrow> viewer_state" where
  "goToPrevPage s = s\<lparr>pageNumber := max (pageNumber s - 1) 1\<rparr>"

definition goToNextPage :: "viewer_state \<Rightarrow> viewer_state" where
  "goToNextPage s = s\<lparr>pageNumber := min (pageNumber s + 1) (numPages s)\<rparr>"

text \<open>
  The two buttons are rendered only under \<^verbatim>\<open>numPages > 0 &&\<close>; the left one is
  disabled when \<^verbatim>\<open>pageNumber <= 1\<close>, the right one when \<^verbatim>\<open>pageNumber >= numPages\<close>.
  A press reaches its handler only when the button is rendered and enabled.
\<close>

definition controls_rendered :: "viewer_state \<Rightarrow> bool" where
  "controls_rendered s = (0 < numPages s)"

definition prev_disabled :: "viewer_state \<Rightarrow> bool" where
  "prev_disabled s = (pageNumber s \<le> 1)"

definition next_disabled :: "viewer_state \<Rightarrow> bool" where
  "next_disabled s = (numPages s \<le> pageNumber s)"

datatype press = PressPrev | PressNext

fun press_button :: "viewer_state \<Rightarrow> press \<Rightarrow> viewer_state" where
  "press_button s PressPrev =
     (if controls_rendered s \<and> \<not> prev_disabled s then goToPrevPage s else s)"
| "press_button s PressNext =
     (if controls_rendered s \<and> \<not> next_disabled s then goToNextPage s else s)"

definition page_in_range :: "viewer_state \<Rightarrow> bool" where
  "page_in_range s = (1 \<le> pageNumber s \<and> pageNumber s \<le> max (numPages s) 1)"

section \<open>Properties of the decision engine\<close>

lemma is_permutation_members:
  assumes "is_permutation n xs"
  shows "int ` {0..<n} \<subseteq> set xs"
proof
  fix x assume "x \<in> int ` {0..<n}"
  then obtain i where i: "i < n" "x = int i" by auto
  from assms i have "count_list xs x = 1"
    by (simp add: is_permutation_def list_all_iff)
  then show "x \<in> set xs"
    by (metis count_list_0_iff zero_neq_one)
qed

lemma is_permutation_sound:
  assumes "is_permutation n xs"
  shows "length xs = n \<and> distinct xs \<and> set xs = {0..<int n}"
proof -
  have len: "length xs = n" using assms by (simp add: is_permutation_def)
  have sub: "int ` {0..<n} \<subseteq> set xs" by (rule is_permutation_members [OF assms])
  have "card (int ` {0..<n}) = n" by (simp add: card_image)
  moreover have "card (int ` {0..<n}) \<le> card (set xs)"
    using sub by (simp add: card_mono)
  moreover have "card (set xs) \<le> length xs" by (rule card_length)
  ultimately have c: "card (set xs) = n" "card (int ` {0..<n}) = card (set xs)"
    using len by simp_all
  have "int ` {0..<n} = set xs"
    using sub c(2) by (simp add: card_subset_eq)
  moreover have "distinct xs" using c(1) len by (simp add: card_distinct)
  ultimately show ?thesis using len by (simp add: image_int_atLeastLessThan)
qed

lemma is_permutation_complete:
  assumes "length xs = n" "distinct xs" "set xs = {0..<int n}"
  shows "is_permutation n xs"
proof -
  have "count_list xs (int i) = 1" if "i < n" for i
  proof -
    have "int i \<in> set xs" using that assms(3) by simp
    with assms(2) show ?thesis
      by (induction xs) auto
  qed
  then show ?thesis using assms(1) by (simp add: is_permutation_def list_all_iff)
qed

lemma admitted_Some:
  "admitted n a = Some r \<Longrightarrow> a = Some r \<and> is_permutation n (OrderingResult.order r)"
  by (auto simp: admitted_def split: option.splits if_splits)

lemma run_strategies_admitted:
  "(sid, r) \<in> set (run_strategies c lib pages ids) \<Longrightarrow>
     sid \<in> set ids \<and> admitted (length pages) (lib sid pages) = Some r"
  by (induction ids) (auto split: option.splits if_splits)

lemma run_strategies_empty:
  "(\<forall>sid \<in> set ids. admitted (length pages) (lib sid pages) = None) \<Longrightarrow>
     run_strategies c lib pages ids = []"
  by (induction ids) auto

lemma beats_irrefl: "\<not> beats a a"
  by (simp add: beats_def)

lemma beats_asym: "beats a b \<Longrightarrow> \<not> beats b a"
  by (auto simp: beats_def)

lemma not_beats_trans: "\<not> beats a b \<Longrightarrow> \<not> beats b c \<Longrightarrow> \<not> beats a c"
  by (auto simp: beats_def)

lemma select_best_None: "select_best cs = None \<longleftrightarrow> cs = []"
  by (induction cs) (auto split: option.splits)

lemma select_best_Some:
  "select_best cs = Some w \<Longrightarrow> w \<in> set cs \<and> (\<forall>c \<in> set cs. \<not> beats c w)"
proof (induction cs arbitrary: w)
  case Nil
  then show ?case by simp
next
  case (Cons c cs)
  show ?case
  proof (cases "select_best cs")
    case None
    then have "cs = []" by (simp add: select_best_None)
    with Cons.prems None show ?thesis by (simp add: beats_irrefl)
  next
    case (Some d)
    from Cons.IH [OF Some] have d: "d \<in> set cs" "\<forall>x \<in> set cs. \<not> beats x d" by simp_all
    show ?thesis
    proof (cases "beats d c")
      case True
      with Cons.prems Some have "w = d" by simp
      with d True show ?thesis by (auto dest: beats_asym)
    next
      case False
      with Cons.prems Some have "w = c" by simp
      with d False show ?thesis by (auto simp: beats_irrefl dest: not_beats_trans)
    qed
  qed
qed



lemma is_permutation_iff: "is_permutation n xs \<longleftrightarrow> index_permutation n xs"
  using is_permutation_sound is_permutation_complete
  by (auto simp: index_permutation_def)

lemma fallback_is_permutation: "index_permutation n (OrderingResult.order (fallback_result n))"
  by (simp add: index_permutation_def fallback_result_def distinct_map image_int_atLeastLessThan)

lemma candidates_are_permutations:
  "(sid, r) \<in> set (run_strategies c lib pages ids) \<Longrightarrow>
     index_permutation (length pages) (OrderingResult.order r)"
  using run_strategies_admitted admitted_Some is_permutation_iff by blast

lemma selected_cases:
  "(select_best (run_strategies (cutoff e) (library e) pages run_order) = None
      \<and> selected (orchestrate e pages) = fallback_result (length pages))
   \<or> (\<exists>w. select_best (run_strategies (cutoff e) (library e) pages run_order)
             = Some (w, selected (orchestrate e pages)))"
  by (cases "select_best (run_strategies (cutoff e) (library e) pages run_order)")
     (auto simp: orchestrate_def Let_def)

lemma final_order_selected:
  "EngineResult.final_order (orchestrate e pages) = OrderingResult.order (selected (orchestrate e pages))"
  by (simp add: orchestrate_def Let_def)

lemma llm_reasoning_Some:
  "llm_reasoning service pages = Some r \<Longrightarrow>
     index_permutation (length pages) (OrderingResult.order r)"
  by (auto simp: llm_reasoning_def is_permutation_iff split: llm_response.splits if_splits)

lemma index_permutation_mset:
  assumes "index_permutation n xs" and "mset ys = mset xs"
  shows "index_permutation n ys"
proof -
  have "length ys = length xs" using assms(2) by (rule mset_eq_length)
  moreover have "set ys = set xs" using assms(2) by (rule mset_eq_setD)
  moreover have "distinct ys = distinct xs" using assms(2) by (rule mset_eq_imp_distinct_iff)
  ultimately show ?thesis using assms(1) by (simp add: index_permutation_def)
qed

lemma page_ids_mset:
  assumes "mset ps = mset [0..<length pages]"
  shows "mset (page_ids pages ps) = mset (map (\<lambda>p. int (original_index p)) pages)"
proof -
  have "mset (page_ids pages ps)
      = image_mset (\<lambda>i. int (original_index (pages ! i))) (mset ps)"
    by (simp add: page_ids_def)
  also have "\<dots> = mset (map (\<lambda>i. int (original_index (pages ! i))) [0..<length pages])"
    using assms by simp
  also have "map (\<lambda>i. int (original_index (pages ! i))) [0..<length pages]
      = map (\<lambda>p. int (original_index p)) (map (\<lambda>i. pages ! i) [0..<length pages])"
    by simp
  also have "map (\<lambda>i. pages ! i) [0..<length pages] = pages" by (rule map_nth)
  finally show ?thesis .
qed

lemma page_ids_permutation:
  assumes "index_permutation (length pages) (map (\<lambda>p. int (original_index p)) pages)"
    and "mset ps = mset [0..<length pages]"
  shows "index_permutation (length pages) (page_ids pages ps)"
  using assms(1) page_ids_mset [OF assms(2)] by (rule index_permutation_mset)

lemma order_by_cue_mset: "mset (order_by_cue keys) = mset [0..<length keys]"
  by (simp add: order_by_cue_def)

lemma classified_split_mset:
  "mset (sort_key k (filter (\<lambda>i. c i \<noteq> None) xs) @ filter (\<lambda>i. c i = None) xs) = mset xs"
  by (induction xs) auto

lemma three_roles_mset:
  "mset (filter (\<lambda>i. f i = Cover) xs @ filter (\<lambda>i. f i = Ordinary) xs
          @ filter (\<lambda>i. f i = Closing) xs) = mset xs"
proof (induction xs)
  case Nil
  show ?case by simp
next
  case (Cons x xs)
  then show ?case by (cases "f x") simp_all
qed

lemma chain_mset: "mset (chain sim t us) = mset us"
proof (induction sim t us rule: chain.induct)
  case (1 sim t)
  show ?case by simp
next
  case (2 sim t u us)
  let ?n = "arg_min_list (\<lambda>j. - sim t j) (u # us)"
  have "?n \<in> set (u # us)" by (rule arg_min_list_in) simp
  then have "add_mset ?n (mset (remove1 ?n (u # us))) = mset (u # us)"
    by (simp only: mset_remove1 set_mset_mset insert_DiffM)
  moreover have "mset (chain sim ?n (remove1 ?n (u # us))) = mset (remove1 ?n (u # us))"
    by (rule "2.IH") simp
  ultimately show ?case by (simp add: Let_def del: mset_remove1)
qed

lemma opener_chain_mset:
  assumes "0 < n"
  shows "mset (opener sim n # chain sim (opener sim n) (remove1 (opener sim n) [0..<n]))
           = mset [0..<n]"
proof -
  have "opener sim n \<in> set [0..<n]"
    unfolding opener_def using assms by (intro arg_min_list_in) simp
  then have "add_mset (opener sim n) (mset (remove1 (opener sim n) [0..<n])) = mset [0..<n]"
    by (simp only: mset_remove1 set_mset_mset insert_DiffM)
  then show ?thesis by (simp add: chain_mset del: mset_remove1)
qed

lemma page_number_permutation:
  assumes "index_permutation (length pages) (map (\<lambda>p. int (original_index p)) pages)"
    and "page_number_strategy cfg pages = Some r"
  shows "index_permutation (length pages) (OrderingResult.order r)"
proof -
  have "mset (order_by_cue (map (detect_number cfg) pages)) = mset [0..<length pages]"
    by (simp add: order_by_cue_mset)
  from page_ids_permutation [OF assms(1) this] assms(2) show ?thesis
    by (auto simp: page_number_strategy_def Let_def split: if_splits)
qed

lemma date_sequence_permutation:
  assumes "index_permutation (length pages) (map (\<lambda>p. int (original_index p)) pages)"
    and "date_sequence_strategy cfg pages = Some r"
  shows "index_permutation (length pages) (OrderingResult.order r)"
proof -
  have "mset (order_by_cue (map (earliest_date cfg) pages)) = mset [0..<length pages]"
    by (simp add: order_by_cue_mset)
  from page_ids_permutation [OF assms(1) this] assms(2) show ?thesis
    by (auto simp: date_sequence_strategy_def Let_def split: if_splits)
qed

lemma business_logic_permutation:
  assumes "index_permutation (length pages) (map (\<lambda>p. int (original_index p)) pages)"
    and "business_logic_strategy cfg pages = Some r"
  shows "index_permutation (length pages) (OrderingResult.order r)"
proof -
  let ?cls = "map (classify cfg) pages"
  have "mset (sort_key (\<lambda>i. section_key (?cls ! i))
                (filter (\<lambda>i. ?cls ! i \<noteq> None) [0..<length pages])
              @ filter (\<lambda>i. ?cls ! i = None) [0..<length pages]) = mset [0..<length pages]"
    by (rule classified_split_mset)
  from page_ids_permutation [OF assms(1) this] assms(2) show ?thesis
    by (auto simp: business_logic_strategy_def Let_def split: if_splits)
qed

lemma structural_pattern_permutation:
  assumes "index_permutation (length pages) (map (\<lambda>p. int (original_index p)) pages)"
    and "structural_pattern_strategy cfg pages = Some r"
  shows "index_permutation (length pages) (OrderingResult.order r)"
proof -
  let ?role = "\<lambda>i. structural_role cfg (pages ! i)"
  have "mset (filter (\<lambda>i. ?role i = Cover) [0..<length pages]
              @ filter (\<lambda>i. ?role i = Ordinary) [0..<length pages]
              @ filter (\<lambda>i. ?role i = Closing) [0..<length pages]) = mset [0..<length pages]"
    by (rule three_roles_mset)
  from page_ids_permutation [OF assms(1) this] assms(2) show ?thesis
    by (auto simp: structural_pattern_strategy_def Let_def split: if_splits)
qed

lemma semantic_similarity_permutation:
  assumes "index_permutation (length pages) (map (\<lambda>p. int (original_index p)) pages)"
    and "semantic_similarity_strategy cfg pages = Some r"
  shows "index_permutation (length pages) (OrderingResult.order r)"
proof -
  from assms(2) obtain f where f: "similarity cfg = Some f" and n: "\<not> length pages < 2"
    by (auto simp: semantic_similarity_strategy_def split: option.splits if_splits)
  let ?sim = "\<lambda>i j. f (pages ! i) (pages ! j)"
  let ?start = "opener ?sim (length pages)"
  have "mset (?start # chain ?sim ?start (remove1 ?start [0..<length pages]))
          = mset [0..<length pages]"
  proof (rule opener_chain_mset)
    show "0 < length pages" using n by linarith
  qed
  from page_ids_permutation [OF assms(1) this] assms(2) f n show ?thesis
    by (auto simp: semantic_similarity_strategy_def Let_def)
qed

lemma strategy_library_permutation:
  assumes "index_permutation (length pages) (map (\<lambda>p. int (original_index p)) pages)"
    and "strategy_library cfg sid pages = Some r"
  shows "index_permutation (length pages) (OrderingResult.order r)"
proof (cases sid)
  case PageNumber
  with assms show ?thesis by (simp add: page_number_permutation)
next
  case BusinessLogic
  with assms show ?thesis by (simp add: business_logic_permutation)
next
  case StructuralPattern
  with assms show ?thesis by (simp add: structural_pattern_permutation)
next
  case DateSequence
  with assms show ?thesis by (simp add: date_sequence_permutation)
next
  case SemanticSimilarity
  with assms show ?thesis by (simp add: semantic_similarity_permutation)
next
  case LLMReasoning
  with assms show ?thesis by (simp add: llm_reasoning_Some)
next
  case IdentityFallback
  with assms show ?thesis by simp
qed

lemma final_order_permutation:
  "index_permutation (length pages) (EngineResult.final_order (orchestrate e pages))"
proof -
  have "index_permutation (length pages) (OrderingResult.order (selected (orchestrate e pages)))"
    using selected_cases [of e pages]
  proof
    assume "select_best (run_strategies (cutoff e) (library e) pages run_order) = None
      \<and> selected (orchestrate e pages) = fallback_result (length pages)"
    then show ?thesis by (simp add: fallback_is_permutation)
  next
    assume "\<exists>w. select_best (run_strategies (cutoff e) (library e) pages run_order)
             = Some (w, selected (orchestrate e pages))"
    then obtain w where "select_best (run_strategies (cutoff e) (library e) pages run_order)
             = Some (w, selected (orchestrate e pages))" ..
    then have "(w, selected (orchestrate e pages))
        \<in> set (run_strategies (cutoff e) (library e) pages run_order)"
      by (simp add: select_best_Some)
    then show ?thesis by (rule candidates_are_permutations)
  qed
  then show ?thesis by (simp add: final_order_selected)
qed

text \<open>
  Claim C1. Let the original indices of the \<open>N\<close> pages be the range \<open>[0, N)\<close>, as the
  data model requires. Then each of the six strategies either abstains or returns an
  order that is a permutation of \<open>[0, N)\<close>: \<open>N\<close> entries, each original index once.
  The final order of the orchestrator is a permutation of \<open>[0, N)\<close> for every engine
  and every input.
\<close>

theorem orders_are_permutations:
  "(index_permutation (length pages) (map (\<lambda>p. int (original_index p)) pages) \<longrightarrow>
      (strategy_library cfg sid pages = None
       \<or> (\<exists>r. strategy_library cfg sid pages = Some r
              \<and> index_permutation (length pages) (OrderingResult.order r))))
   \<and> index_permutation (length pages) (EngineResult.final_order (orchestrate e pages))"
proof (cases "strategy_library cfg sid pages")
  case None
  then show ?thesis by (simp add: final_order_permutation)
next
  case (Some r)
  then show ?thesis
    by (auto simp: final_order_permutation dest: strategy_library_permutation)
qed

text \<open>
  The five pages that carry the numbers 3, 1, 5, 2, 4: the Page-Number strategy returns
  the order \<open>1, 3, 0, 4, 2\<close>, which puts the page with the number 1 first and the page
  with the number 5 last, and the other five strategies abstain. An engine over this
  library with the cutoff \<open>0.9\<close> returns the same order.
\<close>

theorem orders_are_permutations_witness:
  "index_permutation (length five_pages) (map (\<lambda>p. int (original_index p)) five_pages)
   \<and> map_option OrderingResult.order (strategy_library numbered_config PageNumber five_pages)
       = Some [1, 3, 0, 4, 2]
   \<and> index_permutation (length five_pages) [1, 3, 0, 4, 2]
   \<and> map (\<lambda>sid. strategy_library numbered_config sid five_pages)
        [BusinessLogic, StructuralPattern, DateSequence, SemanticSimilarity, LLMReasoning]
       = [None, None, None, None, None]
   \<and> EngineResult.final_order
        (orchestrate \<lparr>library = strategy_library numbered_config, cutoff = 0.9,
                      local_signal = (\<lambda>pages sid a b. 1),
                      excerpt_of = (\<lambda>p. take 20 (page_text p))\<rparr> five_pages)
       = [1, 3, 0, 4, 2]"
proof -
  have wf: "index_permutation (length five_pages)
      (map (\<lambda>p. int (original_index p)) five_pages)"
    by (auto simp: index_permutation_def five_pages_def)
  have pn: "map_option OrderingResult.order
      (strategy_library numbered_config PageNumber five_pages) = Some [1, 3, 0, 4, 2]"
    by (simp add: page_number_strategy_def numbered_config_def five_pages_def Let_def
        fraction_def order_by_cue_def placement_key_def page_ids_def upt_rec)
  have perm: "index_permutation (length five_pages) [1, 3, 0, 4, 2]"
    using orders_are_permutations [of five_pages numbered_config PageNumber] wf pn
    by auto
  have rest: "map (\<lambda>sid. strategy_library numbered_config sid five_pages)
        [BusinessLogic, StructuralPattern, DateSequence, SemanticSimilarity, LLMReasoning]
       = [None, None, None, None, None]"
    by (simp add: business_logic_strategy_def structural_pattern_strategy_def
        date_sequence_strategy_def semantic_similarity_strategy_def llm_reasoning_def
        numbered_config_def five_pages_def Let_def)
  have "EngineResult.final_order
        (orchestrate \<lparr>library = strategy_library numbered_config, cutoff = 0.9,
                      local_signal = (\<lambda>pages sid a b. 1),
                      excerpt_of = (\<lambda>p. take 20 (page_text p))\<rparr> five_pages)
       = [1, 3, 0, 4, 2]"
    by (simp add: orchestrate_def run_order_def admitted_def is_permutation_def
        page_number_strategy_def business_logic_strategy_def structural_pattern_strategy_def
        date_sequence_strategy_def semantic_similarity_strategy_def llm_reasoning_def
        numbered_config_def five_pages_def Let_def fraction_def order_by_cue_def
        placement_key_def page_ids_def upt_rec)
  with wf pn perm rest show ?thesis by simp
qed

lemma pairwise_length: "length (pairwise e pages sel) = length (OrderingResult.order sel) - 1"
  by (simp add: pairwise_def)

text \<open>
  Claim C3. When every strategy abstains (or is treated as abstaining), the orchestrator
  returns a complete result: the final order is the identity order, equal to the initial
  order, the confidence is \<open>0\<close>, the reasoning is the one non-empty entry saying that no
  strategy could decide, there is no candidate, and there are \<open>N - 1\<close> pairwise
  confidences and a summary for each index. The orchestrator is a total function: it has
  no failure value.
\<close>

theorem all_abstain_fallback:
  assumes "\<forall>sid \<in> set run_order. admitted (length pages) (library e sid pages) = None"
  shows "EngineResult.final_order (orchestrate e pages) = map int [0..<length pages]
       \<and> EngineResult.final_order (orchestrate e pages)
           = EngineResult.initial_order (orchestrate e pages)
       \<and> OrderingResult.confidence (selected (orchestrate e pages)) = 0
       \<and> OrderingResult.reasoning (selected (orchestrate e pages)) = [no_decision_note]
       \<and> no_decision_note \<noteq> []
       \<and> candidates (orchestrate e pages) = []
       \<and> length (pairwise_confidences (orchestrate e pages)) = length pages - 1
       \<and> dom (EngineResult.summaries (orchestrate e pages)) = {0..<int (length pages)}"
proof -
  have "run_strategies (cutoff e) (library e) pages run_order = []"
    using assms by (rule run_strategies_empty)
  then show ?thesis
    by (auto simp: orchestrate_def Let_def fallback_result_def pairwise_length
        no_decision_note_def dom_def)
qed

text \<open>Two pages and an engine whose strategies all abstain.\<close>

theorem all_abstain_fallback_witness:
  "map (\<lambda>sid. admitted (length two_pages) (library silent_engine sid two_pages)) run_order
     = [None, None, None, None, None, None]
   \<and> EngineResult.final_order (orchestrate silent_engine two_pages) = [0, 1]
   \<and> OrderingResult.confidence (selected (orchestrate silent_engine two_pages)) = 0
   \<and> OrderingResult.reasoning (selected (orchestrate silent_engine two_pages)) = [no_decision_note]
   \<and> pairwise_confidences (orchestrate silent_engine two_pages) = [0]"
proof -
  have h: "\<forall>sid \<in> set run_order.
      admitted (length two_pages) (library silent_engine sid two_pages) = None"
    by (simp add: silent_engine_def admitted_def)
  have "pairwise_confidences (orchestrate silent_engine two_pages) = [0]"
    by (simp add: orchestrate_def Let_def silent_engine_def run_order_def admitted_def
        two_pages_def fallback_result_def pairwise_def transition_confidence_def)
  moreover have "map (\<lambda>sid. admitted (length two_pages) (library silent_engine sid two_pages))
      run_order = [None, None, None, None, None, None]"
    by (simp add: silent_engine_def admitted_def run_order_def)
  ultimately show ?thesis
    using all_abstain_fallback [OF h] by (simp add: two_pages_def)
qed

lemma not_beats_iff:
  "\<not> beats a b \<longleftrightarrow>
     OrderingResult.confidence (snd a) \<le> OrderingResult.confidence (snd b)
     \<and> (OrderingResult.confidence (snd a) = OrderingResult.confidence (snd b)
          \<longrightarrow> priority_rank (fst b) \<le> priority_rank (fst a))"
  by (auto simp: beats_def)

text \<open>
  Claim C4. Whatever result \<open>(sid, r)\<close> the run of the strategies has collected, the
  selected result is one of the collected results, its confidence is at least that of
  \<open>r\<close>, and at equal confidence its strategy ranks at least as high as \<open>sid\<close>. In
  the ranking Page-Number is highest and LLM-Reasoning is lowest.
\<close>

theorem selects_highest_confidence:
  assumes "(sid, r) \<in> set (run_strategies (cutoff e) (library e) pages run_order)"
  shows "\<exists>w. (w, selected (orchestrate e pages))
              \<in> set (run_strategies (cutoff e) (library e) pages run_order)
           \<and> OrderingResult.confidence r
               \<le> OrderingResult.confidence (selected (orchestrate e pages))
           \<and> (OrderingResult.confidence r
                 = OrderingResult.confidence (selected (orchestrate e pages))
               \<longrightarrow> priority_rank w \<le> priority_rank sid)
           \<and> (\<forall>s \<in> set run_order.
                 priority_rank PageNumber \<le> priority_rank s
                 \<and> priority_rank s \<le> priority_rank LLMReasoning)"
proof -
  let ?cands = "run_strategies (cutoff e) (library e) pages run_order"
  from assms have "select_best ?cands \<noteq> None"
    by (auto simp: select_best_None)
  with selected_cases [of e pages]
  obtain w where w: "select_best ?cands = Some (w, selected (orchestrate e pages))"
    by auto
  from select_best_Some [OF w] assms
  have "(w, selected (orchestrate e pages)) \<in> set ?cands"
    and "\<not> beats (sid, r) (w, selected (orchestrate e pages))"
    by auto
  then show ?thesis
    by (auto simp: not_beats_iff run_order_def)
qed

text \<open>
  Page-Number and Structural-Pattern tie at \<open>0.90\<close>: Page-Number is selected. With
  \<open>0.91\<close> against \<open>0.93\<close> the result with \<open>0.93\<close> is selected.
\<close>

theorem selects_highest_confidence_witness:
  "(StructuralPattern, proposal StructuralPattern [0, 1] 0.9)
      \<in> set (run_strategies (cutoff (two_result_engine 0.9 0.9))
               (library (two_result_engine 0.9 0.9)) two_pages run_order)
   \<and> (PageNumber, proposal PageNumber [1, 0] 0.9)
      \<in> set (run_strategies (cutoff (two_result_engine 0.9 0.9))
               (library (two_result_engine 0.9 0.9)) two_pages run_order)
   \<and> selected (orchestrate (two_result_engine 0.9 0.9) two_pages)
       = proposal PageNumber [1, 0] 0.9
   \<and> selected (orchestrate (two_result_engine 0.91 0.93) two_pages)
       = proposal StructuralPattern [0, 1] 0.93"
proof -
  have c: "run_strategies (cutoff (two_result_engine 0.9 0.9))
               (library (two_result_engine 0.9 0.9)) two_pages run_order
       = [(PageNumber, proposal PageNumber [1, 0] 0.9),
          (StructuralPattern, proposal StructuralPattern [0, 1] 0.9)]"
    by (simp add: two_result_engine_def two_pages_def run_order_def admitted_def
        is_permutation_def proposal_def)
  then have m: "(PageNumber, proposal PageNumber [1, 0] 0.9)
      \<in> set (run_strategies (cutoff (two_result_engine 0.9 0.9))
               (library (two_result_engine 0.9 0.9)) two_pages run_order)"
    by simp
  have "selected (orchestrate (two_result_engine 0.9 0.9) two_pages)
       = proposal PageNumber [1, 0] 0.9"
    using selects_highest_confidence [OF m] c
    by (auto simp: proposal_def)
  moreover have "selected (orchestrate (two_result_engine 0.91 0.93) two_pages)
       = proposal StructuralPattern [0, 1] 0.93"
    by (simp add: orchestrate_def Let_def two_result_engine_def two_pages_def run_order_def
        admitted_def is_permutation_def proposal_def beats_def)
  ultimately show ?thesis using c by simp
qed

section \<open>Properties of the report component\<close>

subsection \<open>Average confidence\<close>

text \<open>
  Claim C8. When \<^verbatim>\<open>metadata.confidences\<close> is present but empty, the average is the
  division of the empty sum \<^verbatim>\<open>0\<close> by the length \<^verbatim>\<open>0\<close>, which is \<^verbatim>\<open>NaN\<close>, whatever
  the confidence of the selected strategy is. Whenever the field is present the average
  is the quotient of sum and length; the confidence of the selected strategy is used only
  when the field, or the whole of \<^verbatim>\<open>metadata\<close>, is absent.
\<close>

theorem avgConfidence_empty_is_NaN:
  "avgConfidence (result\<lparr>metadata := Some (md\<lparr>confidences := Some []\<rparr>)\<rparr>) = NaN
   \<and> avgConfidence (result\<lparr>metadata := Some (md\<lparr>confidences := Some cs\<rparr>)\<rparr>)
       = js_div_length (foldl js_add (Num 0) cs) (length cs)
   \<and> avgConfidence (result\<lparr>metadata := Some (md\<lparr>confidences := None\<rparr>)\<rparr>)
       = SelectedStrategy.confidence (selectedStrategy result)
   \<and> avgConfidence (result\<lparr>metadata := None\<rparr>)
       = SelectedStrategy.confidence (selectedStrategy result)"
  by (simp add: avgConfidence_def)

subsection \<open>Confidence histogram\<close>

lemma js_lt_iff_not_ge: "c \<noteq> NaN \<Longrightarrow> d \<noteq> NaN \<Longrightarrow> js_lt c d = (\<not> js_ge c d)"
  by (cases c; cases d) auto

text \<open>A number other than \<^verbatim>\<open>NaN\<close> passes exactly one of the three filters.\<close>

lemma one_bucket:
  "c \<noteq> NaN \<Longrightarrow>
     (if js_ge c (Num 0.8) then 1 else 0)
       + (if js_ge c (Num 0.6) \<and> js_lt c (Num 0.8) then 1 else 0)
       + (if js_lt c (Num 0.6) then 1 else 0) = (1::nat)"
  by (cases c) auto

text \<open>
  Claim C6. For every list of confidences the three buckets high (\<open>c \<ge> 0.8\<close>), medium
  (\<open>0.6 \<le> c < 0.8\<close>) and low (\<open>c < 0.6\<close>) are mutually exclusive and exhaustive, so
  their counts add up to the length of the list. A confidence is a number, never
  \<^verbatim>\<open>NaN\<close>: that is the hypothesis, and it holds of every list of numbers within
  \<open>[0, 1]\<close>.
\<close>

theorem histogram_partition:
  "NaN \<notin> set cs \<Longrightarrow> high_count cs + medium_count cs + low_count cs = length cs"
proof (induction cs)
  case Nil
  show ?case by (simp add: high_count_def medium_count_def low_count_def)
next
  case (Cons c cs)
  then have c: "c \<noteq> NaN" and ih: "high_count cs + medium_count cs + low_count cs = length cs"
    by auto
  from one_bucket [OF c] ih show ?case
    by (simp add: high_count_def medium_count_def low_count_def split: if_splits)
qed

theorem histogram_partition_witness:
  "NaN \<notin> set [Num 0.9, Num 0.8, Num 0.7, Num 0.3, PInf]
   \<and> high_count [Num 0.9, Num 0.8, Num 0.7, Num 0.3, PInf] = 3
   \<and> medium_count [Num 0.9, Num 0.8, Num 0.7, Num 0.3, PInf] = 1
   \<and> low_count [Num 0.9, Num 0.8, Num 0.7, Num 0.3, PInf] = 1
   \<and> high_count [Num 0.9, Num 0.8, Num 0.7, Num 0.3, PInf]
       + medium_count [Num 0.9, Num 0.8, Num 0.7, Num 0.3, PInf]
       + low_count [Num 0.9, Num 0.8, Num 0.7, Num 0.3, PInf]
     = length [Num 0.9, Num 0.8, Num 0.7, Num 0.3, PInf]"
  using histogram_partition [of "[Num 0.9, Num 0.8, Num 0.7, Num 0.3, PInf]"]
  by (simp add: high_count_def medium_count_def low_count_def)

subsection \<open>Transition list\<close>

lemma transition_rows_nth:
  assumes "Metadata.confidences md = Some cs" and "idx < length cs" and "idx < 10"
  shows "transition_rows md ! idx =
           \<lparr>left = js_opt_index (Metadata.final_order md) idx,
            right = or_End (js_opt_index (Metadata.final_order md) (idx + 1)),
            conf = cs ! idx\<rparr>"
  using assms by (simp add: transition_rows_def nth_enumerate_eq)

lemma length_transition_rows:
  "Metadata.confidences md = Some cs \<Longrightarrow> length (transition_rows md) = min 10 (length cs)"
  by (simp add: transition_rows_def min.commute)

text \<open>
  Claim C5, at the order of a two-page document whose pages were swapped. The claim
  says that row \<open>0\<close> shows the pair \<open>(1, 0)\<close>; the component shows \<open>1\<close> and the label
  \<^verbatim>\<open>End\<close>, because the right end \<open>0\<close> is falsy.
\<close>

theorem swapped_pair_row_shows_End:
  "transition_rows
      \<lparr>original_filename = None, page_count = Some 2, initial_order = Some [0, 1],
       final_order = Some [1, 0], confidences = Some [Num 0.9], summaries = None\<rparr>
   = [\<lparr>left = Some 1, right = End, conf = Num 0.9\<rparr>]"
  by (simp add: transition_rows_def js_opt_index_def js_index_def or_End_def)

text \<open>
  Claim C9. In every rendered row \<open>idx\<close> of the transition list (final or not), when
  the entry of \<^verbatim>\<open>final_order\<close> at position \<open>idx + 1\<close> is the page index \<open>0\<close>, the right
  end of the row is the label \<^verbatim>\<open>End\<close> and not the number \<open>0\<close>.
\<close>

theorem End_shown_for_page_zero:
  assumes "Metadata.confidences md = Some cs" and "Metadata.final_order md = Some fo"
    and "idx < length cs" and "idx < 10"
    and "idx + 1 < length fo" and "fo ! (idx + 1) = 0"
  shows "right (transition_rows md ! idx) = End"
  using assms by (simp add: transition_rows_nth js_opt_index_def js_index_def or_End_def)

text \<open>
  Three pages in the order \<open>1, 0, 2\<close>: the list has two rows, and the first one, which
  is not the final one, ends in \<^verbatim>\<open>End\<close>.
\<close>

theorem End_shown_for_page_zero_witness:
  "length (transition_rows
      \<lparr>original_filename = None, page_count = Some 3, initial_order = Some [0, 1, 2],
       final_order = Some [1, 0, 2], confidences = Some [Num 0.9, Num 0.7],
       summaries = None\<rparr>) = 2
   \<and> right (transition_rows
      \<lparr>original_filename = None, page_count = Some 3, initial_order = Some [0, 1, 2],
       final_order = Some [1, 0, 2], confidences = Some [Num 0.9, Num 0.7],
       summaries = None\<rparr> ! 0) = End"
  using End_shown_for_page_zero
    [of "\<lparr>original_filename = None, page_count = Some 3, initial_order = Some [0, 1, 2],
       final_order = Some [1, 0, 2], confidences = Some [Num 0.9, Num 0.7],
       summaries = None\<rparr>" "[Num 0.9, Num 0.7]" "[1, 0, 2]" 0]
  by (simp add: transition_rows_def)

subsection \<open>Content preview\<close>

lemma preview_rows_nth:
  assumes "Metadata.summaries md = Some sm" and "Metadata.final_order md = Some fo"
    and "p < length fo" and "p < 8"
  shows "preview_rows md ! p =
      \<lparr>position = p, pageIdx = fo ! p,
       badge = preview_badge (Metadata.confidences md) p,
       excerpt = map_option (\<lambda>s. replace_newlines (substring 0 150 s)) (sm (fo ! p)),
       ellipsis = (case sm (fo ! p) of None \<Rightarrow> []
                   | Some s \<Rightarrow> if 150 < length s then ''...'' else [])\<rparr>"
  using assms by (simp add: preview_rows_def nth_enumerate_eq)

text \<open>
  Claim C7, as stated, at an excerpt of three characters with a line feed in the middle:
  the paragraph does not hold the first 150 characters of the excerpt, since the line feed
  has become a space.
\<close>

theorem preview_newline_counterexample:
  "shown_text (preview_rows
      \<lparr>original_filename = None, page_count = Some 1, initial_order = Some [0],
       final_order = Some [0], confidences = Some [],
       summaries = Some [0 \<mapsto> [CHR ''a'', CHR 0x0A, CHR ''b'']]\<rparr> ! 0)
     \<noteq> take 150 [CHR ''a'', CHR 0x0A, CHR ''b'']
         @ (if 150 < length [CHR ''a'', CHR 0x0A, CHR ''b''] then ''...'' else [])"
  by (simp add: preview_rows_def shown_text_def replace_newlines_def substring_def)

text \<open>
  Claim C7, amended. The preview has one row for each of the first eight positions of
  \<^verbatim>\<open>final_order\<close>. The row at position \<open>p\<close> is keyed by the original page index
  \<open>final_order[p]\<close>: it shows the first 150 characters of the excerpt stored under that
  index, each line feed among them replaced by a space, followed by an ellipsis exactly
  when the excerpt is longer than 150 characters.
\<close>

theorem preview_keyed_by_original_index:
  assumes "Metadata.summaries md = Some sm" and "Metadata.final_order md = Some fo"
    and "p < length fo" and "p < 8" and "sm (fo ! p) = Some s"
  shows "length (preview_rows md) = min 8 (length fo)
       \<and> pageIdx (preview_rows md ! p) = fo ! p
       \<and> shown_text (preview_rows md ! p)
           = replace_newlines (take 150 s) @ (if 150 < length s then ''...'' else [])"
proof -
  have "length (preview_rows md) = min 8 (length fo)"
    using assms(1,2) by (simp add: preview_rows_def min.commute)
  moreover have "substring 0 150 s = take 150 s"
    by (simp add: substring_def)
  ultimately show ?thesis
    using assms by (simp add: preview_rows_nth shown_text_def)
qed

text \<open>
  Two pages in the order \<open>1, 0\<close>: position \<open>0\<close> shows the excerpt of page \<open>1\<close> (151
  characters, cut to 150 and followed by the ellipsis), position \<open>1\<close> the excerpt of
  page \<open>0\<close> (short, shown whole).
\<close>

theorem preview_keyed_by_original_index_witness:
  "shown_text (preview_rows
      \<lparr>original_filename = None, page_count = Some 2, initial_order = Some [0, 1],
       final_order = Some [1, 0], confidences = Some [Num 0.9],
       summaries = Some [0 \<mapsto> ''first'', 1 \<mapsto> replicate 151 (CHR ''x'')]\<rparr> ! 0)
     = replicate 150 (CHR ''x'') @ ''...''
   \<and> shown_text (preview_rows
      \<lparr>original_filename = None, page_count = Some 2, initial_order = Some [0, 1],
       final_order = Some [1, 0], confidences = Some [Num 0.9],
       summaries = Some [0 \<mapsto> ''first'', 1 \<mapsto> replicate 151 (CHR ''x'')]\<rparr> ! 1)
     = ''first''"
  using preview_keyed_by_original_index
    [of "\<lparr>original_filename = None, page_count = Some 2, initial_order = Some [0, 1],
       final_order = Some [1, 0], confidences = Some [Num 0.9],
       summaries = Some [0 \<mapsto> ''first'', 1 \<mapsto> replicate 151 (CHR ''x'')]\<rparr>"
       "[0 \<mapsto> ''first'', 1 \<mapsto> replicate 151 (CHR ''x'')]" "[1, 0]" 0
       "replicate 151 (CHR ''x'')"]
    preview_keyed_by_original_index
    [of "\<lparr>original_filename = None, page_count = Some 2, initial_order = Some [0, 1],
       final_order = Some [1, 0], confidences = Some [Num 0.9],
       summaries = Some [0 \<mapsto> ''first'', 1 \<mapsto> replicate 151 (CHR ''x'')]\<rparr>"
       "[0 \<mapsto> ''first'', 1 \<mapsto> replicate 151 (CHR ''x'')]" "[1, 0]" 1 "''first''"]
  by (simp add: replace_newlines_def)

section \<open>Properties of the page viewer\<close>

lemma press_button_numPages: "numPages (press_button s p) = numPages s"
  by (cases p) (simp_all add: goToPrevPage_def goToNextPage_def)

lemma press_button_in_range: "page_in_range s \<Longrightarrow> page_in_range (press_button s p)"
  by (cases p)
     (auto simp: page_in_range_def goToPrevPage_def goToNextPage_def controls_rendered_def
        prev_disabled_def next_disabled_def)

lemma presses_in_range: "page_in_range s \<Longrightarrow> page_in_range (foldl press_button s ps)"
  by (induction ps arbitrary: s) (simp_all add: press_button_in_range)

text \<open>
  The handlers alone keep the range when there is at least one page. With no page the
  handler of the right button would set the page number to \<open>0\<close>; the buttons are not
  rendered then, so no press reaches it.
\<close>

lemma handlers_in_range:
  "0 < numPages s \<Longrightarrow> page_in_range s \<Longrightarrow>
     page_in_range (goToPrevPage s) \<and> page_in_range (goToNextPage s)"
  by (auto simp: page_in_range_def goToPrevPage_def goToNextPage_def)

lemma goToNextPage_without_pages:
  "pageNumber (goToNextPage (onDocumentLoadSuccess 0 s)) = 0
   \<and> press_button (onDocumentLoadSuccess 0 s) PressNext = onDocumentLoadSuccess 0 s"
  by (simp add: goToNextPage_def onDocumentLoadSuccess_def controls_rendered_def)

text \<open>
  Claim C10. After a document has loaded with any page count \<open>n\<close>, every sequence of
  presses of the two buttons leaves \<open>1 \<le> pageNumber \<le> max numPages 1\<close>. The handler
  of the left button never goes below \<open>1\<close>, the handler of the right button never goes
  above \<open>numPages\<close>.
\<close>

theorem pageNumber_stays_in_range:
  "page_in_range (foldl press_button (onDocumentLoadSuccess n s) ps)
   \<and> 1 \<le> pageNumber (goToPrevPage s)
   \<and> pageNumber (goToNextPage s) \<le> numPages s"
proof -
  have "page_in_range (onDocumentLoadSuccess n s)"
    by (simp add: page_in_range_def onDocumentLoadSuccess_def)
  then show ?thesis
    by (simp add: presses_in_range goToPrevPage_def goToNextPage_def)
qed

end
